theory Spec2Isabelle
  imports Main "HOL-Library.Sublist"
begin

section \<open>Go strings and the library functions the program calls\<close>

text \<open>
  A Go \<open>string\<close> and a \<open>[]byte\<close> are byte sequences; both are modelled as
  \<open>string\<close> (a list of 8-bit characters). The functions of this section are the
  parts of Go's \<open>strings\<close>, \<open>bytes\<close>, \<open>path/filepath\<close> and \<open>bufio\<close> packages that
  \<open>pkg/processor/gitignore.go\<close> and \<open>pkg/processor/processor.go\<close> call, for a build
  whose path separator is \<open>/\<close>.
\<close>

abbreviation LF :: char where "LF \<equiv> CHR 0x0A"
abbreviation CR :: char where "CR \<equiv> CHR 0x0D"

definition HasPrefix :: "string \<Rightarrow> string \<Rightarrow> bool" where
  \<comment> \<open>\<open>strings.HasPrefix(s, p)\<close>\<close>
  "HasPrefix s p = prefix p s"

definition HasSuffix :: "string \<Rightarrow> string \<Rightarrow> bool" where
  \<comment> \<open>\<open>strings.HasSuffix(s, p)\<close>\<close>
  "HasSuffix s p = suffix p s"

fun Contains :: "string \<Rightarrow> string \<Rightarrow> bool" where
  \<comment> \<open>\<open>strings.Contains(s, sub)\<close>: \<open>sub\<close> occurs in \<open>s\<close> as a contiguous run of bytes\<close>
  "Contains [] sub = (sub = [])"
| "Contains (c # cs) sub = (prefix sub (c # cs) \<or> Contains cs sub)"

fun Split :: "string \<Rightarrow> char \<Rightarrow> string list" where
  \<comment> \<open>\<open>strings.Split(s, sep)\<close> for a separator of one byte, the only kind the program passes\<close>
  "Split [] sep = [[]]"
| "Split (c # cs) sep =
     (if c = sep then [] # Split cs sep
      else (case Split cs sep of [] \<Rightarrow> [[c]] | p # ps \<Rightarrow> (c # p) # ps))"

definition Separator :: char where
  "Separator = CHR ''/''"

definition ToSlash :: "string \<Rightarrow> string" where
  \<comment> \<open>\<open>filepath.ToSlash\<close>: every separator becomes a slash\<close>
  "ToSlash path = map (\<lambda>c. if c = Separator then CHR ''/'' else c) path"

definition Base :: "string \<Rightarrow> string" where
  \<comment> \<open>\<open>filepath.Base\<close>: the last element of the path, trailing separators dropped first;
      \<open>.\<close> for the empty path and the separator for a path of separators only\<close>
  "Base path =
     (if path = [] then ''.''
      else
        let stripped = rev (dropWhile (\<lambda>c. c = Separator) (rev path));
            elem = rev (takeWhile (\<lambda>c. c \<noteq> Separator) (rev stripped))
        in if elem = [] then [Separator] else elem)"

fun Replace1 :: "string \<Rightarrow> string \<Rightarrow> string \<Rightarrow> string" where
  \<comment> \<open>\<open>bytes.Replace(s, old, new, 1)\<close>: the leftmost occurrence of \<open>old\<close> replaced by
      \<open>new\<close>, \<open>s\<close> itself when there is none (an empty \<open>old\<close> occurs at the start)\<close>
  "Replace1 [] old new = (if old = [] then new else [])"
| "Replace1 (c # cs) old new =
     (if prefix old (c # cs) then new @ drop (length old) (c # cs)
      else c # Replace1 cs old new)"

definition MaxScanTokenSize :: nat where
  \<comment> \<open>\<open>bufio.MaxScanTokenSize\<close>, the largest buffer a default \<open>bufio.Scanner\<close> grows to\<close>
  "MaxScanTokenSize = 65536"

definition dropCR :: "string \<Rightarrow> string" where
  \<comment> \<open>\<open>bufio.dropCR\<close>: one trailing carriage return is removed\<close>
  "dropCR line = (if line \<noteq> [] \<and> last line = CR then butlast line else line)"

definition scanFirstLine :: "string \<Rightarrow> string option" where
  \<comment> \<open>The first \<open>scanner.Scan()\<close> of a \<open>bufio.NewScanner\<close> over the content, with the
      default \<open>ScanLines\<close> split: \<open>None\<close> when \<open>Scan\<close> returns false (no input, or no line
      feed within the first \<open>MaxScanTokenSize\<close> bytes of an input at least that long),
      otherwise \<open>scanner.Text()\<close>, the bytes before the first line feed (all of the input
      when it has none) without a trailing carriage return.\<close>
  "scanFirstLine content =
     (let line = takeWhile (\<lambda>c. c \<noteq> LF) content
      in if content = [] then None
         else if MaxScanTokenSize \<le> length line then None
         else Some (dropCR line))"

section \<open>The ignore patterns: \<open>pkg/processor/gitignore.go\<close>\<close>

record GitIgnore =
  patterns :: "string list"
  rootDir :: string

definition wildcardMatch :: "string \<Rightarrow> string \<Rightarrow> bool option" where
  \<comment> \<open>The wildcard block of \<open>matchGitIgnorePattern\<close>: \<open>Some b\<close> where the block returns
      \<open>b\<close>, \<open>None\<close> where control leaves the block without returning.\<close>
  "wildcardMatch path pattern =
     (if Contains pattern ''*'' then
        (case Split pattern (CHR ''*'') of
           [pre, suf] \<Rightarrow>
             if pre = [] \<and> suf \<noteq> [] then Some (HasSuffix path suf)
             else if pre \<noteq> [] \<and> suf = [] then Some (HasPrefix path pre)
             else if pre \<noteq> [] \<and> suf \<noteq> [] then
               (if Contains pre ''/'' then Some (HasPrefix path pre \<and> HasSuffix path suf)
                else let filename = Base path
                     in Some (HasPrefix filename pre \<and> HasSuffix filename suf))
             else None
         | _ \<Rightarrow> None)
      else None)"

definition exactMatch :: "string \<Rightarrow> string \<Rightarrow> bool" where
  \<comment> \<open>The last block of \<open>matchGitIgnorePattern\<close> (comment \<open>Exact match\<close>): a pattern with
      a slash is a path from the root, any other pattern is compared with every element
      of the path.\<close>
  "exactMatch path pattern =
     (if Contains pattern ''/'' then path = pattern \<or> HasPrefix path (pattern @ ''/'')
      else pattern \<in> set (Split path (CHR ''/'')))"

definition matchGitIgnorePattern :: "string \<Rightarrow> string \<Rightarrow> bool" where
  "matchGitIgnorePattern path pattern =
     (if HasPrefix pattern ''/'' then
        (let pattern' = drop 1 pattern
         in path = pattern' \<or> HasPrefix path (pattern' @ ''/''))
      else if HasSuffix pattern ''/'' then
        (let dirPattern = butlast pattern
         in path = dirPattern \<or> HasPrefix path pattern \<or>
            HasSuffix path (''/'' @ dirPattern) \<or>
            Contains path (''/'' @ dirPattern @ ''/''))
      else if HasPrefix pattern ''!'' then False
      else (case wildcardMatch path pattern of
              Some b \<Rightarrow> b
            | None \<Rightarrow> exactMatch path pattern))"

fun firstPass :: "string \<Rightarrow> string list \<Rightarrow> bool" where
  \<comment> \<open>The first loop of \<open>ShouldIgnore\<close>: the value of \<open>isIgnored\<close> after it\<close>
  "firstPass relPath [] = False"
| "firstPass relPath (pattern # rest) =
     (if HasPrefix pattern ''!'' then firstPass relPath rest
      else if matchGitIgnorePattern relPath pattern then True
      else firstPass relPath rest)"

fun secondPass :: "string \<Rightarrow> string list \<Rightarrow> bool" where
  \<comment> \<open>The second loop of \<open>ShouldIgnore\<close> and the return after it\<close>
  "secondPass relPath [] = True"
| "secondPass relPath (pattern # rest) =
     (if \<not> HasPrefix pattern ''!'' then secondPass relPath rest
      else if matchGitIgnorePattern relPath (drop 1 pattern) then False
      else secondPass relPath rest)"

definition ShouldIgnore ::
  "(string \<Rightarrow> string \<Rightarrow> string option) \<Rightarrow> GitIgnore \<Rightarrow> string \<Rightarrow> bool" where
  \<comment> \<open>\<open>Rel\<close> stands for \<open>filepath.Rel\<close>, \<open>None\<close> being its error.\<close>
  "ShouldIgnore Rel gi path =
     (case Rel (rootDir gi) path of
        None \<Rightarrow> False
      | Some rel \<Rightarrow>
          let relPath = ToSlash rel;
              isIgnored = firstPass relPath (patterns gi)
          in if \<not> isIgnored then False else secondPass relPath (patterns gi))"

section \<open>The header rewrite: \<open>pkg/models/models.go\<close> and \<open>pkg/processor/processor.go\<close>\<close>

record CommentStyle =
  LineComment :: string
  BlockCommentStart :: string
  BlockCommentEnd :: string
  Preferred :: string

text \<open>
  Of \<open>models.Config\<close> and \<open>Processor\<close> the fields that \<open>processFile\<close> reads are kept;
  \<open>Verbose\<close> only selects what is printed, and printing is not modelled.
\<close>

record Options =
  DryRun :: bool
  ConfigFile :: string
  Verbose :: bool
  IncludeHidden :: bool

record Config =
  AdditionalIgnores :: "string list"
  IncludeGitIgnored :: bool
  CommentPrefix :: string
  UpdateExistingPrefix :: string

record Processor =
  options :: Options
  config :: Config
  fileTypes :: "string \<rightharpoonup> CommentStyle"

datatype error =
  UnsupportedFileType string
| NoValidCommentStyle string
| ReadFailed
| WriteFailed

definition cStyle :: CommentStyle where
  "cStyle = \<lparr>LineComment = ''//'', BlockCommentStart = ''/*'', BlockCommentEnd = ''*/'',
     Preferred = ''line''\<rparr>"

definition lineOnly :: "string \<Rightarrow> CommentStyle" where
  \<comment> \<open>A composite literal that sets \<open>LineComment\<close> and \<open>Preferred\<close> only\<close>
  "lineOnly tok = \<lparr>LineComment = tok, BlockCommentStart = [], BlockCommentEnd = [],
     Preferred = ''line''\<rparr>"

definition initializeFileTypes :: "string \<rightharpoonup> CommentStyle" where
  "initializeFileTypes = map_of
     [(''.cs'', cStyle), (''.go'', cStyle), (''.c'', cStyle), (''.cpp'', cStyle),
      (''.h'', cStyle), (''.hpp'', cStyle), (''.java'', cStyle), (''.js'', cStyle),
      (''.ts'', cStyle), (''.jsx'', cStyle), (''.tsx'', cStyle),
      (''.sh'', lineOnly ''#''), (''.ps1'', lineOnly ''#''),
      (''.py'', \<lparr>LineComment = ''#'', BlockCommentStart = [CHR 0x27, CHR 0x27, CHR 0x27],
         BlockCommentEnd = [CHR 0x27, CHR 0x27, CHR 0x27], Preferred = ''line''\<rparr>),
      (''.rb'', \<lparr>LineComment = ''#'', BlockCommentStart = ''=begin'',
         BlockCommentEnd = ''=end'', Preferred = ''line''\<rparr>),
      (''.html'', \<lparr>LineComment = [], BlockCommentStart = ''<!--'',
         BlockCommentEnd = ''-->'', Preferred = ''block''\<rparr>),
      (''.xml'', \<lparr>LineComment = [], BlockCommentStart = ''<!--'',
         BlockCommentEnd = ''-->'', Preferred = ''block''\<rparr>),
      (''.css'', \<lparr>LineComment = [], BlockCommentStart = ''/*'',
         BlockCommentEnd = ''*/'', Preferred = ''block''\<rparr>),
      (''.yaml'', lineOnly ''#''), (''.yml'', lineOnly ''#''), (''.toml'', lineOnly ''#''),
      (''.ini'', lineOnly '';''), (''.conf'', lineOnly ''#''),
      (''.rs'', cStyle), (''.swift'', cStyle), (''.kt'', cStyle),
      (''.lua'', \<lparr>LineComment = ''--'', BlockCommentStart = ''--[['',
         BlockCommentEnd = ''--]]'', Preferred = ''line''\<rparr>),
      (''.pl'', lineOnly ''#''), (''.php'', cStyle)]"

definition formatComment :: "CommentStyle \<Rightarrow> string \<Rightarrow> string \<Rightarrow> string \<Rightarrow> error + string" where
  \<comment> \<open>\<open>processFile\<close>, from \<open>// Format the comment\<close>: the value of \<open>commentText\<close>, or the
      error of the last branch\<close>
  "formatComment commentStyle ext commentPrefix relPath =
     (let filePathComment = commentPrefix @ relPath
      in if Preferred commentStyle = ''line'' \<and> LineComment commentStyle \<noteq> [] then
           Inr (LineComment commentStyle @ '' '' @ filePathComment @ [LF])
         else if BlockCommentStart commentStyle \<noteq> [] \<and> BlockCommentEnd commentStyle \<noteq> [] then
           Inr (BlockCommentStart commentStyle @ '' '' @ filePathComment @ '' '' @
                BlockCommentEnd commentStyle @ [LF])
         else Inl (NoValidCommentStyle ext))"

definition hasPathComment :: "CommentStyle \<Rightarrow> string \<Rightarrow> string \<Rightarrow> bool" where
  \<comment> \<open>The condition under \<open>// Check if there's already a file path comment\<close>\<close>
  "hasPathComment commentStyle commentPrefix firstLine =
     (Contains firstLine (LineComment commentStyle) \<and> Contains firstLine commentPrefix \<or>
      (Contains firstLine (BlockCommentStart commentStyle) \<and> Contains firstLine commentPrefix))"

definition rewrite ::
  "CommentStyle \<Rightarrow> string \<Rightarrow> string \<Rightarrow> string \<Rightarrow> string \<Rightarrow> error + (string \<times> bool)" where
  \<comment> \<open>\<open>processFile\<close> between reading the file and writing it: from the comment style,
      the extension, the prefix, the slash-separated relative path and the content to
      \<open>(newContent, updated)\<close>, or the error returned on the way\<close>
  "rewrite commentStyle ext commentPrefix relPath content =
     (case formatComment commentStyle ext commentPrefix relPath of
        Inl e \<Rightarrow> Inl e
      | Inr commentText \<Rightarrow>
          (case scanFirstLine content of
             Some firstLine \<Rightarrow>
               if hasPathComment commentStyle commentPrefix firstLine then
                 Inr (Replace1 content (firstLine @ [LF]) commentText, True)
               else Inr (commentText @ content, True)
           | None \<Rightarrow> Inr (commentText, True)))"

record FileSystem =
  files :: "string \<rightharpoonup> string"
  readonly :: "string set"

definition ReadFile :: "FileSystem \<Rightarrow> string \<Rightarrow> error + string" where
  "ReadFile fs name = (case files fs name of None \<Rightarrow> Inl ReadFailed | Some c \<Rightarrow> Inr c)"

definition WriteFile :: "FileSystem \<Rightarrow> string \<Rightarrow> string \<Rightarrow> error + FileSystem" where
  "WriteFile fs name content =
     (if name \<in> readonly fs then Inl WriteFailed
      else Inr (fs\<lparr>files := (files fs)(name \<mapsto> content)\<rparr>))"

definition isBinaryFile :: "FileSystem \<Rightarrow> string \<Rightarrow> bool" where
  "isBinaryFile fs path =
     (case files fs path of
        None \<Rightarrow> False
      | Some c \<Rightarrow> CHR 0x00 \<in> set (take 512 c))"

definition Ext :: "string \<Rightarrow> string" where
  \<comment> \<open>\<open>filepath.Ext\<close>: from the last dot of the last path element on, empty without one\<close>
  "Ext path =
     (let stop = (\<lambda>c. c \<noteq> CHR ''.'' \<and> c \<noteq> Separator)
      in case dropWhile stop (rev path) of
           [] \<Rightarrow> []
         | c # _ \<Rightarrow> if c = CHR ''.'' then c # rev (takeWhile stop (rev path)) else [])"

definition processFile ::
  "(string \<Rightarrow> string) \<Rightarrow> Processor \<Rightarrow> FileSystem \<Rightarrow> string \<Rightarrow> string \<Rightarrow>
     (error + bool) \<times> FileSystem" where
  \<comment> \<open>The returned pair \<open>(updated, err)\<close> as a sum, with the file system after the call.
      \<open>ToLower\<close> stands for \<open>strings.ToLower\<close>.\<close>
  "processFile ToLower p fs filePath relPath0 =
     (if isBinaryFile fs filePath then (Inr False, fs)
      else
        let relPath = ToSlash relPath0;
            ext = ToLower (Ext filePath)
        in case fileTypes p ext of
             None \<Rightarrow> (Inl (UnsupportedFileType ext), fs)
           | Some commentStyle \<Rightarrow>
               (case ReadFile fs filePath of
                  Inl e \<Rightarrow> (Inl e, fs)
                | Inr content \<Rightarrow>
                    (case rewrite commentStyle ext (CommentPrefix (config p)) relPath content of
                       Inl e \<Rightarrow> (Inl e, fs)
                     | Inr (newContent, updated) \<Rightarrow>
                         if updated \<and> \<not> DryRun (options p) then
                           (case WriteFile fs filePath newContent of
                              Inl e \<Rightarrow> (Inl e, fs)
                            | Inr fs' \<Rightarrow> (Inr updated, fs'))
                         else (Inr updated, fs))))"

section \<open>Facts about the library functions\<close>

lemma Contains_sublist: "Contains s sub \<longleftrightarrow> sublist sub s"
  by (induction s) (auto simp: sublist_Cons_right)

lemma Contains_char: "Contains s [c] \<longleftrightarrow> c \<in> set s"
  by (induction s) auto

lemma ToSlash_slash: "ToSlash path = path"
  by (induction path) (auto simp: ToSlash_def Separator_def)

lemma Split_not_Nil: "Split s sep \<noteq> []"
  by (induction s) (auto split: list.splits)

lemma length_Split: "length (Split s sep) = Suc (count_list s sep)"
  by (induction s) (auto split: list.splits simp: Split_not_Nil)

lemma set_Split: "part \<in> set (Split s sep) \<Longrightarrow> set part \<subseteq> set s"
proof (induction s arbitrary: part)
  case Nil
  then show ?case by simp
next
  case (Cons c cs)
  show ?case
  proof (cases "c = sep")
    case True
    with Cons show ?thesis by auto
  next
    case False
    obtain p ps where ps: "Split cs sep = p # ps"
      using Split_not_Nil[of cs sep] by (cases "Split cs sep") auto
    with False Cons.prems have "part = c # p \<or> part \<in> set ps" by auto
    then show ?thesis
    proof
      assume "part = c # p"
      moreover have "set p \<subseteq> set cs" using Cons.IH[of p] ps by simp
      ultimately show ?thesis by auto
    next
      assume "part \<in> set ps"
      then have "set part \<subseteq> set cs" using Cons.IH[of part] ps by simp
      then show ?thesis by auto
    qed
  qed
qed

lemma set_prefix_append: "prefix (xs @ ys) zs \<Longrightarrow> set xs \<subseteq> set zs"
  using set_mono_prefix[of "xs @ ys" zs] by simp

lemma set_suffix_append: "suffix (ys @ xs) zs \<Longrightarrow> set xs \<subseteq> set zs"
  using set_mono_suffix[of "ys @ xs" zs] by simp

lemma set_sublist_append: "sublist (ys @ xs @ ws) zs \<Longrightarrow> set xs \<subseteq> set zs"
  using set_mono_sublist[of "ys @ xs @ ws" zs] by simp

section \<open>The pattern matcher\<close>

lemma firstPass_iff:
  "firstPass relPath ps \<longleftrightarrow>
     (\<exists>p\<in>set ps. \<not> prefix ''!'' p \<and> matchGitIgnorePattern relPath p)"
  by (induction ps) (auto simp: HasPrefix_def)

lemma secondPass_iff:
  "secondPass relPath ps \<longleftrightarrow>
     \<not> (\<exists>p\<in>set ps. prefix ''!'' p \<and> matchGitIgnorePattern relPath (drop 1 p))"
  by (induction ps) (auto simp: HasPrefix_def)

lemma star_in_drop:
  assumes "1 < count_list pattern (CHR ''*'')"
  shows "CHR ''*'' \<in> set (drop 1 pattern)" and "CHR ''*'' \<in> set (butlast pattern)"
proof -
  obtain c cs where p: "pattern = c # cs" using assms by (cases pattern) auto
  with assms have "0 < count_list cs (CHR ''*'')" by (auto split: if_splits)
  then show "CHR ''*'' \<in> set (drop 1 pattern)"
    using p count_list_0_iff[of cs "CHR ''*''"] by auto
  obtain ds d where q: "pattern = ds @ [d]"
    using p by (metis append_butlast_last_id list.distinct(1))
  with assms have "0 < count_list ds (CHR ''*'')" by (auto split: if_splits)
  then show "CHR ''*'' \<in> set (butlast pattern)"
    using q count_list_0_iff[of ds "CHR ''*''"] by auto
qed

text \<open>
  The root rule: a pattern with a leading slash, the slash stripped, matches a path iff
  the path equals the rest of the pattern or starts with the rest followed by a slash.
  The trailing slash of a pattern such as \<open>/dist/\<close> is not stripped, as the directory
  rule would do: it stays in the rest, and no path without a trailing slash and without
  two slashes in a row is matched.
\<close>

lemma rooted_pattern_rule:
  "matchGitIgnorePattern path (CHR ''/'' # rest) \<longleftrightarrow>
     path = rest \<or> prefix (rest @ ''/'') path"
  by (simp add: matchGitIgnorePattern_def HasPrefix_def)

lemma rooted_directory_pattern_dead:
  assumes "\<not> suffix ''/'' path" and "\<not> sublist ''//'' path"
  shows "\<not> matchGitIgnorePattern path (CHR ''/'' # dirName @ ''/'')"
proof
  assume "matchGitIgnorePattern path (CHR ''/'' # dirName @ ''/'')"
  then have "path = dirName @ ''/'' \<or> prefix ((dirName @ ''/'') @ ''/'') path"
    by (simp only: rooted_pattern_rule)
  then show False
  proof
    assume "path = dirName @ ''/''"
    then have "suffix ''/'' path" by simp
    with assms(1) show False by simp
  next
    assume "prefix ((dirName @ ''/'') @ ''/'') path"
    then obtain zs where "path = dirName @ ''//'' @ zs" by (auto simp: prefix_def)
    then have "sublist ''//'' path" by (metis sublist_appendI)
    with assms(2) show False by simp
  qed
qed

text \<open>
  C1. A pattern with a leading slash is anchored at the root, and \<open>/dist/\<close> should match
  \<open>dist/file.js\<close> while not matching \<open>src/dist/file.js\<close>. The second holds; the first does
  not: \<open>/dist/\<close> does not match \<open>dist/file.js\<close>, which both the directory pattern
  \<open>dist/\<close> and the rooted pattern \<open>/dist\<close> do match.
\<close>

theorem C1_rooted_directory_pattern_misses:
  "\<not> matchGitIgnorePattern ''dist/file.js'' ''/dist/'' \<and>
   \<not> matchGitIgnorePattern ''src/dist/file.js'' ''/dist/'' \<and>
   matchGitIgnorePattern ''dist/file.js'' ''dist/'' \<and>
   matchGitIgnorePattern ''dist/file.js'' ''/dist''"
  by code_simp

text \<open>
  C2. \<open>ShouldIgnore\<close> is the two-pass function. When \<open>filepath.Rel\<close> fails the result is
  false. Otherwise, on the slash-separated relative path, the result is true iff some
  pattern without a leading \<open>!\<close> matches and no pattern with a leading \<open>!\<close> matches once
  the marker is stripped; so it is false whenever no pattern without the marker matches,
  whatever the negated patterns are. With the patterns \<open>build/\<close> and \<open>!build/keep.txt\<close>,
  \<open>build/keep.txt\<close> is not ignored and \<open>build/other.txt\<close> is.
\<close>

theorem C2_two_pass:
  "ShouldIgnore Rel gi path =
     (case Rel (rootDir gi) path of
        None \<Rightarrow> False
      | Some rel \<Rightarrow>
          (\<exists>p\<in>set (patterns gi). \<not> prefix ''!'' p \<and> matchGitIgnorePattern (ToSlash rel) p) \<and>
          \<not> (\<exists>p\<in>set (patterns gi).
                prefix ''!'' p \<and> matchGitIgnorePattern (ToSlash rel) (drop 1 p))) \<and>
   ShouldIgnore (\<lambda>root p. Some p)
     \<lparr>patterns = [''build/'', ''!build/keep.txt''], rootDir = ''.''\<rparr> ''build/keep.txt'' = False \<and>
   ShouldIgnore (\<lambda>root p. Some p)
     \<lparr>patterns = [''build/'', ''!build/keep.txt''], rootDir = ''.''\<rparr> ''build/other.txt'' = True"
proof -
  have general: "ShouldIgnore Rel gi path =
     (case Rel (rootDir gi) path of
        None \<Rightarrow> False
      | Some rel \<Rightarrow>
          (\<exists>p\<in>set (patterns gi). \<not> prefix ''!'' p \<and> matchGitIgnorePattern (ToSlash rel) p) \<and>
          \<not> (\<exists>p\<in>set (patterns gi).
                prefix ''!'' p \<and> matchGitIgnorePattern (ToSlash rel) (drop 1 p)))"
    by (auto simp: ShouldIgnore_def firstPass_iff secondPass_iff Let_def split: option.splits)
  have keep: "ShouldIgnore (\<lambda>root p. Some p)
     \<lparr>patterns = [''build/'', ''!build/keep.txt''], rootDir = ''.''\<rparr> ''build/keep.txt'' = False"
    by code_simp
  have other: "ShouldIgnore (\<lambda>root p. Some p)
     \<lparr>patterns = [''build/'', ''!build/keep.txt''], rootDir = ''.''\<rparr> ''build/other.txt'' = True"
    by code_simp
  from general keep other show ?thesis by blast
qed

text \<open>
  C6 (as amended). A pattern with a trailing slash and no leading slash names a
  directory at any depth: with the trailing slash stripped to \<open>dirName\<close>, it matches a
  path iff the path equals \<open>dirName\<close>, starts with \<open>dirName/\<close>, ends with \<open>/dirName\<close> or
  contains \<open>/dirName/\<close>. So \<open>node_modules/\<close> matches \<open>node_modules/pkg/index.js\<close> and
  \<open>a/node_modules/b.js\<close>.
\<close>

theorem C6_directory_pattern:
  "(\<not> prefix ''/'' (dirName @ ''/'') \<longrightarrow>
      (matchGitIgnorePattern path (dirName @ ''/'') \<longleftrightarrow>
         path = dirName \<or> prefix (dirName @ ''/'') path \<or>
         suffix (''/'' @ dirName) path \<or> sublist (''/'' @ dirName @ ''/'') path)) \<and>
   matchGitIgnorePattern ''node_modules/pkg/index.js'' ''node_modules/'' \<and>
   matchGitIgnorePattern ''a/node_modules/b.js'' ''node_modules/''"
proof -
  have general: "matchGitIgnorePattern path (dirName @ ''/'') \<longleftrightarrow>
         path = dirName \<or> prefix (dirName @ ''/'') path \<or>
         suffix (''/'' @ dirName) path \<or> sublist (''/'' @ dirName @ ''/'') path"
    if "\<not> prefix ''/'' (dirName @ ''/'')"
    using that
    by (simp add: matchGitIgnorePattern_def HasPrefix_def HasSuffix_def Contains_sublist
        del: Contains.simps)
  have ex1: "matchGitIgnorePattern ''node_modules/pkg/index.js'' ''node_modules/''"
    by code_simp
  have ex2: "matchGitIgnorePattern ''a/node_modules/b.js'' ''node_modules/''"
    by code_simp
  from general ex1 ex2 show ?thesis by blast
qed

text \<open>
  The pattern \<open>build/\<close> on \<open>docs/build/output.txt\<close>: the directory is found in the middle
  of the path.
\<close>

theorem C6_directory_pattern_witness:
  "matchGitIgnorePattern ''docs/build/output.txt'' (''build'' @ ''/'') \<and>
   sublist (''/'' @ ''build'' @ ''/'') ''docs/build/output.txt''"
proof -
  have h: "\<not> prefix ''/'' (''build'' @ ''/'')" by simp
  have s: "sublist (''/'' @ ''build'' @ ''/'') ''docs/build/output.txt''"
    by code_simp
  from C6_directory_pattern[of "''build''" "''docs/build/output.txt''"] h s
  show ?thesis by blast
qed

text \<open>
  C6 as first stated covers every pattern with a trailing slash. A pattern that also has
  a leading slash is taken by the root rule before the directory rule is reached:
  \<open>/a/\<close> matches the path \<open>a/\<close>, which satisfies none of the four directory conditions
  for \<open>dirName = /a\<close>.
\<close>

theorem C6_rooted_counterexample:
  "matchGitIgnorePattern ''a/'' (''/a'' @ ''/'') \<and>
   \<not> (''a/'' = ''/a'' \<or> prefix (''/a'' @ ''/'') ''a/'' \<or>
      suffix (''/'' @ ''/a'') ''a/'' \<or> sublist (''/'' @ ''/a'' @ ''/'') ''a/'')"
  by code_simp

text \<open>
  C8 (as amended). A pattern with more than one \<open>*\<close> gets no wildcard treatment. When
  it has no leading slash, no trailing slash and no leading \<open>!\<close>, it is matched as a
  plain pattern: with a slash in it, the path must equal it or start with it followed by
  a slash; without one, some element of the path must equal it. Every comparison is
  literal, so a path without a \<open>*\<close> character is never matched, whatever the pattern's
  first and last characters are.
\<close>

theorem C8_many_stars:
  assumes "1 < count_list pattern (CHR ''*'')"
  shows "(\<not> prefix ''/'' pattern \<and> \<not> suffix ''/'' pattern \<and> \<not> prefix ''!'' pattern \<longrightarrow>
           (matchGitIgnorePattern path pattern \<longleftrightarrow>
              (if CHR ''/'' \<in> set pattern
               then path = pattern \<or> prefix (pattern @ ''/'') path
               else pattern \<in> set (Split path (CHR ''/''))))) \<and>
         (CHR ''*'' \<notin> set path \<longrightarrow> \<not> matchGitIgnorePattern path pattern)"
proof -
  have len: "length (Split pattern (CHR ''*'')) \<ge> 3"
    using assms by (simp add: length_Split)
  have wild: "wildcardMatch path pattern = None"
    using len by (auto simp: wildcardMatch_def split: list.splits)
  have slash: "Contains pattern ''/'' \<longleftrightarrow> CHR ''/'' \<in> set pattern"
    by (rule Contains_char)
  have star: "CHR ''*'' \<in> set pattern"
    using assms by (metis count_list_0_iff not_less_zero)
  have rule4: "matchGitIgnorePattern path pattern \<longleftrightarrow>
              (if CHR ''/'' \<in> set pattern
               then path = pattern \<or> prefix (pattern @ ''/'') path
               else pattern \<in> set (Split path (CHR ''/'')))"
    if "\<not> prefix ''/'' pattern" "\<not> suffix ''/'' pattern" "\<not> prefix ''!'' pattern"
    using that wild slash
    by (simp add: matchGitIgnorePattern_def HasPrefix_def HasSuffix_def exactMatch_def
        del: Contains.simps)
  have nomatch: "\<not> matchGitIgnorePattern path pattern" if nostar: "CHR ''*'' \<notin> set path"
  proof
    assume m: "matchGitIgnorePattern path pattern"
    have sub: "\<not> set (drop 1 pattern) \<subseteq> set path" "\<not> set (butlast pattern) \<subseteq> set path"
      "\<not> set pattern \<subseteq> set path"
      using star_in_drop[OF assms] star nostar by auto
    consider (root) "prefix ''/'' pattern"
      | (dir) "\<not> prefix ''/'' pattern" "suffix ''/'' pattern"
      | (plain) "\<not> prefix ''/'' pattern" "\<not> suffix ''/'' pattern" "\<not> prefix ''!'' pattern"
      | (neg) "\<not> prefix ''/'' pattern" "\<not> suffix ''/'' pattern" "prefix ''!'' pattern"
      by blast
    then show False
    proof cases
      case root
      with m have "path = drop 1 pattern \<or> prefix (drop 1 pattern @ ''/'') path"
        by (simp add: matchGitIgnorePattern_def HasPrefix_def Let_def)
      then have "set (drop 1 pattern) \<subseteq> set path"
        using set_prefix_append[of "drop 1 pattern" "''/''" path] by auto
      with sub show False by simp
    next
      case dir
      with m have "path = butlast pattern \<or> prefix pattern path \<or>
            suffix (''/'' @ butlast pattern) path \<or>
            sublist (''/'' @ butlast pattern @ ''/'') path"
        by (simp add: matchGitIgnorePattern_def HasPrefix_def HasSuffix_def Contains_sublist
            Let_def del: Contains.simps)
      then have "set (butlast pattern) \<subseteq> set path \<or> set pattern \<subseteq> set path"
        using set_mono_prefix[of pattern path]
          set_suffix_append[of "''/''" "butlast pattern" path]
          set_sublist_append[of "''/''" "butlast pattern" "''/''" path]
        by auto
      with sub show False by simp
    next
      case plain
      with m rule4 have "path = pattern \<or> prefix (pattern @ ''/'') path \<or>
          pattern \<in> set (Split path (CHR ''/''))"
        by (auto split: if_splits)
      then have "set pattern \<subseteq> set path"
        using set_prefix_append[of pattern "''/''" path] set_Split[of pattern path "CHR ''/''"]
        by auto
      with sub show False by simp
    next
      case neg
      with m show False by (simp add: matchGitIgnorePattern_def HasPrefix_def HasSuffix_def)
    qed
  qed
  from rule4 nomatch show ?thesis by blast
qed

text \<open>
  Two patterns with two stars each, on paths that a glob would accept: neither matches.
  The second pattern is plain, and matches the path that has it, stars and all, as an
  element.
\<close>

theorem C8_many_stars_witness:
  "\<not> matchGitIgnorePattern ''src/a/b/c.go'' ''src/*/*/c.go'' \<and>
   \<not> matchGitIgnorePattern ''ab.txt'' ''a*b*'' \<and>
   \<not> prefix ''/'' ''a*b*'' \<and> \<not> suffix ''/'' ''a*b*'' \<and> \<not> prefix ''!'' ''a*b*'' \<and>
   matchGitIgnorePattern ''x/a*b*'' ''a*b*''"
proof -
  have h1: "1 < count_list ''src/*/*/c.go'' (CHR ''*'')" by simp
  have h2: "1 < count_list ''a*b*'' (CHR ''*'')" by simp
  have n1: "CHR ''*'' \<notin> set ''src/a/b/c.go''" by simp
  have n2: "CHR ''*'' \<notin> set ''ab.txt''" by simp
  have p: "\<not> prefix ''/'' ''a*b*''" "\<not> suffix ''/'' ''a*b*''" "\<not> prefix ''!'' ''a*b*''"
    by (simp_all add: suffix_to_prefix)
  have s: "CHR ''/'' \<notin> set ''a*b*''" by simp
  from C8_many_stars[OF h1, of "''src/a/b/c.go''"] C8_many_stars[OF h2, of "''ab.txt''"]
    C8_many_stars[OF h2, of "''x/a*b*''"] n1 n2 p s
  show ?thesis by simp
qed

text \<open>
  C8 as first stated has such a pattern match nothing. The plain treatment compares
  literally, so the pattern \<open>a**\<close> matches the path whose name is \<open>a**\<close>.
\<close>

theorem C8_literal_star_counterexample:
  "1 < count_list ''a**'' (CHR ''*'') \<and> matchGitIgnorePattern ''a**'' ''a**''"
  by code_simp

section \<open>The header rewrite\<close>

lemmas rewrite_eval = rewrite_def formatComment_def scanFirstLine_def MaxScanTokenSize_def
  dropCR_def hasPathComment_def

lemma Replace1_no_occurrence: "\<not> sublist old s \<Longrightarrow> Replace1 s old new = s"
  by (induction s) (auto simp: sublist_Cons_right)

lemma Replace1_prefix: "prefix old s \<Longrightarrow> Replace1 s old new = new @ drop (length old) s"
  by (cases s) auto

lemma Replace1_first_occurrence:
  "sublist old s \<Longrightarrow>
   \<exists>a b. s = a @ old @ b \<and> (\<forall>a' b'. s = a' @ old @ b' \<longrightarrow> length a \<le> length a') \<and>
         Replace1 s old new = a @ new @ b"
proof (induction s)
  case Nil
  then show ?case by simp
next
  case (Cons c cs)
  show ?case
  proof (cases "prefix old (c # cs)")
    case True
    then obtain b where b: "c # cs = old @ b" by (auto simp: prefix_def)
    then have "Replace1 (c # cs) old new = [] @ new @ b"
      using True by (metis Replace1.simps(2) append_Nil append_eq_conv_conj)
    with b show ?thesis by (metis append_Nil le0 list.size(3))
  next
    case False
    with Cons.prems have "sublist old cs" by (simp add: sublist_Cons_right)
    from Cons.IH[OF this] obtain a b where ab: "cs = a @ old @ b"
      "\<forall>a' b'. cs = a' @ old @ b' \<longrightarrow> length a \<le> length a'"
      "Replace1 cs old new = a @ new @ b" by blast
    have "length (c # a) \<le> length a'" if "c # cs = a' @ old @ b'" for a' b'
    proof (cases a')
      case Nil
      with that have "prefix old (c # cs)" by simp
      with False show ?thesis by simp
    next
      case (Cons x xs)
      with that have "cs = xs @ old @ b'" by simp
      with ab(2) have "length a \<le> length xs" by blast
      with Cons show ?thesis by simp
    qed
    moreover have "c # cs = (c # a) @ old @ b" using ab(1) by simp
    moreover have "Replace1 (c # cs) old new = (c # a) @ new @ b"
      using False ab(3) by simp
    ultimately show ?thesis by blast
  qed
qed

lemma takeWhile_line: "LF \<notin> set line \<Longrightarrow> takeWhile (\<lambda>c. c \<noteq> LF) (line @ LF # rest) = line"
  by (induction line) auto

lemma scanFirstLine_line:
  "LF \<notin> set line \<Longrightarrow> length line < MaxScanTokenSize \<Longrightarrow>
   scanFirstLine (line @ LF # rest) = Some (dropCR line)"
  by (simp add: scanFirstLine_def takeWhile_line)

lemma scanFirstLine_too_long:
  "LF \<notin> set line \<Longrightarrow> MaxScanTokenSize \<le> length line \<Longrightarrow>
   scanFirstLine (line @ LF # rest) = None"
  by (simp add: scanFirstLine_def takeWhile_line)

lemma hasPathComment_sublist:
  "hasPathComment style pre line \<longleftrightarrow>
     (sublist (LineComment style) line \<and> sublist pre line) \<or>
     (sublist (BlockCommentStart style) line \<and> sublist pre line)"
  by (simp add: hasPathComment_def Contains_sublist del: Contains.simps)

lemma rewrite_replace:
  "formatComment style ext pre rel = Inr header \<Longrightarrow> scanFirstLine content = Some firstLine \<Longrightarrow>
   hasPathComment style pre firstLine \<Longrightarrow>
   rewrite style ext pre rel content = Inr (Replace1 content (firstLine @ [LF]) header, True)"
  by (simp add: rewrite_def)

text \<open>
  Where the first line ends in a line feed alone and is short enough for the scanner,
  the rewrite touches that line only: it is replaced when it is a header, and the new
  header is put in front of it otherwise.
\<close>

lemma rewrite_lf_first_line:
  assumes fmt: "formatComment style ext pre rel = Inr header"
    and nolf: "LF \<notin> set line" and len: "length line < MaxScanTokenSize"
    and nocr: "dropCR line = line"
  shows "rewrite style ext pre rel (line @ LF # rest) =
           Inr (if hasPathComment style pre line then header @ rest
                else header @ line @ LF # rest, True)"
proof -
  have scan: "scanFirstLine (line @ LF # rest) = Some line"
    using scanFirstLine_line[OF nolf len] nocr by simp
  have "Replace1 (line @ LF # rest) (line @ [LF]) header = header @ rest"
    using Replace1_prefix[of "line @ [LF]" "line @ LF # rest" header] by simp
  with fmt scan show ?thesis by (simp add: rewrite_def)
qed

text \<open>
  The header that the rewrite writes is itself taken for a header. So content that
  starts with it is a fixed point of the rewrite, as long as the header has a single
  line feed, at its end, no carriage return before it, and fits the scanner.
\<close>

lemma header_is_detected:
  assumes "formatComment style ext pre rel = Inr (h @ [LF])"
  shows "hasPathComment style pre h"
proof -
  have "(h = LineComment style @ '' '' @ pre @ rel) \<or>
        (h = BlockCommentStart style @ '' '' @ pre @ rel @ '' '' @ BlockCommentEnd style)"
    using assms by (auto simp: formatComment_def Let_def split: if_splits)
  then show ?thesis
  proof
    assume h: "h = LineComment style @ '' '' @ pre @ rel"
    have "sublist (LineComment style) h" unfolding h by (rule prefix_imp_sublist) simp
    moreover have "sublist pre h" unfolding h
      by (metis append.assoc sublist_appendI)
    ultimately show ?thesis by (simp add: hasPathComment_sublist)
  next
    assume h: "h = BlockCommentStart style @ '' '' @ pre @ rel @ '' '' @ BlockCommentEnd style"
    have "sublist (BlockCommentStart style) h" unfolding h by (rule prefix_imp_sublist) simp
    moreover have "sublist pre h" unfolding h
      by (metis append.assoc sublist_appendI)
    ultimately show ?thesis by (simp add: hasPathComment_sublist)
  qed
qed

lemma rewrite_fixed_point:
  assumes fmt: "formatComment style ext pre rel = Inr (h @ [LF])"
    and nolf: "LF \<notin> set h" and len: "length h < MaxScanTokenSize" and nocr: "dropCR h = h"
  shows "rewrite style ext pre rel ((h @ [LF]) @ rest) = Inr ((h @ [LF]) @ rest, True)"
  using rewrite_lf_first_line[OF fmt nolf len nocr, of rest] header_is_detected[OF fmt]
  by simp

text \<open>
  A first line too long for the scanner makes \<open>Scan\<close> fail; the file is then taken for
  an empty one, and the header alone is what is written back.
\<close>

lemma rewrite_long_first_line:
  "formatComment style ext pre rel = Inr header \<Longrightarrow> LF \<notin> set line \<Longrightarrow>
   MaxScanTokenSize \<le> length line \<Longrightarrow>
   rewrite style ext pre rel (line @ LF # rest) = Inr (header, True)"
  by (simp add: rewrite_def scanFirstLine_too_long)

lemma builtin_empty_line_token:
  "initializeFileTypes ext = Some style \<Longrightarrow>
   (LineComment style = [] \<longleftrightarrow> ext \<in> {''.html'', ''.xml'', ''.css''})"
  by (auto simp: initializeFileTypes_def cStyle_def lineOnly_def split: if_splits)

lemma builtin_formatComment:
  "initializeFileTypes ext = Some style \<Longrightarrow> \<exists>header. formatComment style e pre rel = Inr header"
  by (auto simp: initializeFileTypes_def cStyle_def lineOnly_def formatComment_def
      split: if_splits)

text \<open>
  C3. Rewriting the result of a rewrite, with the same path, style and prefix, should give
  that result again. Here it does not. The content is a Go file whose first line is a
  header ending in carriage return and line feed, followed by two lines equal to that
  header and ending in a line feed alone. The scanner hands the first line over without
  its carriage return, so the replacement looks for the line followed by a line feed,
  finds it at the second line and rewrites that one; the second rewrite finds it at the
  third line and rewrites that one.
\<close>

theorem C3_second_rewrite_differs:
  "rewrite cStyle ''.go'' ''File: '' ''b.go''
       (''// File: a'' @ [CR, LF] @ ''// File: a'' @ [LF] @ ''// File: a'' @ [LF]) =
     Inr (''// File: a'' @ [CR, LF] @ ''// File: b.go'' @ [LF] @ ''// File: a'' @ [LF], True) \<and>
   rewrite cStyle ''.go'' ''File: '' ''b.go''
       (''// File: a'' @ [CR, LF] @ ''// File: b.go'' @ [LF] @ ''// File: a'' @ [LF]) =
     Inr (''// File: a'' @ [CR, LF] @ ''// File: b.go'' @ [LF] @ ''// File: b.go'' @ [LF], True)"
  by (simp add: rewrite_eval cStyle_def)

text \<open>
  C4 (as amended). A style whose preferred form is \<open>line\<close>, whose line token is empty and
  whose block start or block end is empty as well makes the rewrite fail with the
  no-valid-comment-style error, whatever the content and the path: no new content is
  produced. For a file of such a type \<open>processFile\<close> leaves the file system as it was; it
  returns that error unless the file is binary (no update, no error) or cannot be read
  (the read error).
\<close>

theorem C4_unsupported_style:
  assumes "Preferred style = ''line''" and "LineComment style = []"
    and "BlockCommentStart style = [] \<or> BlockCommentEnd style = []"
  shows "rewrite style ext pre rel content = Inl (NoValidCommentStyle ext) \<and>
         (fileTypes p (ToLower (Ext filePath)) = Some style \<longrightarrow>
            processFile ToLower p fs filePath rel0 =
              (if isBinaryFile fs filePath then Inr False
               else case files fs filePath of
                      None \<Rightarrow> Inl ReadFailed
                    | Some c \<Rightarrow> Inl (NoValidCommentStyle (ToLower (Ext filePath))),
               fs))"
proof -
  have r: "rewrite style e pr rl c = Inl (NoValidCommentStyle e)" for e pr rl c
    using assms by (auto simp: rewrite_def formatComment_def)
  show ?thesis
    by (auto simp: r processFile_def ReadFile_def Let_def split: option.splits)
qed

text \<open>
  A text file \<open>notes.txt\<close> whose type has the line form preferred and no token at all:
  the error is returned and the file keeps its content.
\<close>

theorem C4_unsupported_style_witness:
  "rewrite (lineOnly []) ''.txt'' ''File: '' ''notes.txt'' ''hello'' =
     Inl (NoValidCommentStyle ''.txt'') \<and>
   processFile (\<lambda>s. s)
     \<lparr>options = \<lparr>DryRun = False, ConfigFile = [], Verbose = False, IncludeHidden = False\<rparr>,
      config = \<lparr>AdditionalIgnores = [], IncludeGitIgnored = False, CommentPrefix = ''File: '',
                UpdateExistingPrefix = []\<rparr>,
      fileTypes = [''.txt'' \<mapsto> lineOnly []]\<rparr>
     \<lparr>files = [''notes.txt'' \<mapsto> ''hello''], readonly = {}\<rparr> ''notes.txt'' ''notes.txt'' =
   (Inl (NoValidCommentStyle ''.txt''), \<lparr>files = [''notes.txt'' \<mapsto> ''hello''], readonly = {}\<rparr>)"
proof -
  have h1: "Preferred (lineOnly []) = ''line''" by (simp add: lineOnly_def)
  have h2: "LineComment (lineOnly []) = []" by (simp add: lineOnly_def)
  have h3: "BlockCommentStart (lineOnly []) = [] \<or> BlockCommentEnd (lineOnly []) = []"
    by (simp add: lineOnly_def)
  have e: "Ext ''notes.txt'' = ''.txt''" by (simp add: Ext_def Separator_def)
  have b: "\<not> isBinaryFile \<lparr>files = [''notes.txt'' \<mapsto> ''hello''], readonly = {}\<rparr> ''notes.txt''"
    by (simp add: isBinaryFile_def)
  show ?thesis
    using C4_unsupported_style[OF h1 h2 h3, of "''.txt''" "''File: ''" "''notes.txt''" "''hello''"
        "\<lparr>options = \<lparr>DryRun = False, ConfigFile = [], Verbose = False, IncludeHidden = False\<rparr>,
      config = \<lparr>AdditionalIgnores = [], IncludeGitIgnored = False, CommentPrefix = ''File: '',
                UpdateExistingPrefix = []\<rparr>,
      fileTypes = [''.txt'' \<mapsto> lineOnly []]\<rparr>" "\<lambda>s. s" "''notes.txt''"
        "\<lparr>files = [''notes.txt'' \<mapsto> ''hello''], readonly = {}\<rparr>" "''notes.txt''"] e b
    by simp
qed

text \<open>
  C4 as first stated asks only for the line form to be preferred and the line token to
  be empty. When both block tokens are there, the rewrite falls back on the block form
  and succeeds.
\<close>

theorem C4_block_fallback_counterexample:
  "Preferred \<lparr>LineComment = [], BlockCommentStart = ''/*'', BlockCommentEnd = ''*/'',
      Preferred = ''line''\<rparr> = ''line'' \<and>
   LineComment \<lparr>LineComment = [], BlockCommentStart = ''/*'', BlockCommentEnd = ''*/'',
      Preferred = ''line''\<rparr> = [] \<and>
   rewrite \<lparr>LineComment = [], BlockCommentStart = ''/*'', BlockCommentEnd = ''*/'',
      Preferred = ''line''\<rparr> ''.x'' ''File: '' ''a.x'' ''body'' =
     Inr (''/* File: a.x */'' @ [LF] @ ''body'', True)"
  by (simp add: rewrite_eval)

text \<open>
  The replacing branch. Let the rewrite have a header to write, the scanner yield a
  first line, and that line be taken for a header. Then the rewrite reports an update,
  and the new content is the old one with the leftmost occurrence of the scanned line
  followed by a line feed replaced by the header: the old content itself when there is
  no occurrence.
\<close>

lemma existing_header_replace_branch:
  assumes fmt: "formatComment style ext pre rel = Inr header"
    and scan: "scanFirstLine content = Some firstLine"
    and det: "hasPathComment style pre firstLine"
  shows "\<exists>newContent.
       rewrite style ext pre rel content = Inr (newContent, True) \<and>
       (if sublist (firstLine @ [LF]) content
        then \<exists>a b. content = a @ (firstLine @ [LF]) @ b \<and>
               (\<forall>a' b'. content = a' @ (firstLine @ [LF]) @ b' \<longrightarrow> length a \<le> length a') \<and>
               newContent = a @ header @ b
        else newContent = content)"
proof -
  from rewrite_replace[OF fmt scan det]
  have r: "rewrite style ext pre rel content =
      Inr (Replace1 content (firstLine @ [LF]) header, True)" .
  show ?thesis
  proof (cases "sublist (firstLine @ [LF]) content")
    case True
    from Replace1_first_occurrence[OF True, of header] r True show ?thesis by auto
  next
    case False
    from Replace1_no_occurrence[OF False, of header] r False show ?thesis by auto
  qed
qed

lemma existing_header_example:
  "rewrite cStyle ''.go'' ''File: '' ''new/path.go''
       (''// File: old/path.go'' @ [LF] @ ''package main'' @ [LF]) =
     Inr (''// File: new/path.go'' @ [LF] @ ''package main'' @ [LF], True)"
  by (simp add: rewrite_eval cStyle_def)

text \<open>
  C5. A non-empty content whose first line is a header should come back with that line
  and its line feed replaced by the new header, and with an update reported. With line
  feeds alone it does (\<open>existing_header_example\<close>, \<open>rewrite_lf_first_line\<close>). With a
  carriage return before the line feed it does not: the first line of this Go file, the
  bytes before the first line feed, has the line token and the prefix in it, an update
  is reported, and the content comes back as it was, the old path still in its header.
\<close>

theorem C5_crlf_header_not_replaced:
  "takeWhile (\<lambda>c. c \<noteq> LF) (''// File: old/path.go'' @ [CR, LF] @ ''package main'' @ [LF]) =
     ''// File: old/path.go'' @ [CR] \<and>
   hasPathComment cStyle ''File: '' (''// File: old/path.go'' @ [CR]) \<and>
   rewrite cStyle ''.go'' ''File: '' ''new/path.go''
       (''// File: old/path.go'' @ [CR, LF] @ ''package main'' @ [LF]) =
     Inr (''// File: old/path.go'' @ [CR, LF] @ ''package main'' @ [LF], True)"
  by (simp add: rewrite_eval cStyle_def)

text \<open>
  C7. The rewrite should leave every line but the first as it was. Here it does not. The
  first line of this Go file is a header ending in carriage return and line feed, and the
  third line repeats it with a line feed alone. The first line stays, and the third one
  is overwritten with the new header.
\<close>

theorem C7_later_line_rewritten:
  "rewrite cStyle ''.go'' ''File: '' ''new.go''
     (''// File: old.go'' @ [CR, LF] @ ''package main'' @ [LF] @ ''// File: old.go'' @ [LF]) =
   Inr (''// File: old.go'' @ [CR, LF] @ ''package main'' @ [LF] @ ''// File: new.go'' @ [LF],
        True)"
  by (simp add: rewrite_eval cStyle_def)

text \<open>
  C9 (as amended). Let the content start with a line ended by carriage return and line
  feed, the scanner yield a first line for it, that line be taken for a header, and that
  line followed by a line feed occur nowhere in the content. Then the scanned line is
  the first line without its carriage return, and the rewrite reports an update and
  returns the content byte for byte.
\<close>

theorem C9_crlf_header_unchanged:
  assumes content: "content = line @ [CR, LF] @ rest" and nolf: "LF \<notin> set line"
    and scan: "scanFirstLine content = Some firstLine"
    and fmt: "formatComment style ext pre rel = Inr header"
    and det: "Contains firstLine (LineComment style) \<and> Contains firstLine pre \<or>
         Contains firstLine (BlockCommentStart style) \<and> Contains firstLine pre"
    and nocc: "\<not> sublist (firstLine @ [LF]) content"
  shows "firstLine = line \<and> rewrite style ext pre rel content = Inr (content, True)"
proof -
  have "takeWhile (\<lambda>c. c \<noteq> LF) content = line @ [CR]"
    using takeWhile_line[of "line @ [CR]" rest] nolf content by simp
  with scan have fl: "firstLine = line"
    by (auto simp: scanFirstLine_def dropCR_def Let_def split: if_splits)
  from det have "hasPathComment style pre firstLine" by (simp add: hasPathComment_def)
  from rewrite_replace[OF fmt scan this] Replace1_no_occurrence[OF nocc, of header] fl
  show ?thesis by simp
qed

text \<open>
  A Go file with Windows line ends and a stale header: the rewrite reports an update and
  the stale header stays.
\<close>

theorem C9_crlf_header_unchanged_witness:
  "scanFirstLine (''// File: old.go'' @ [CR, LF] @ ''package main'' @ [CR, LF]) =
     Some ''// File: old.go'' \<and>
   rewrite cStyle ''.go'' ''File: '' ''new.go''
     (''// File: old.go'' @ [CR, LF] @ ''package main'' @ [CR, LF]) =
   Inr (''// File: old.go'' @ [CR, LF] @ ''package main'' @ [CR, LF], True)"
proof -
  have h1: "''// File: old.go'' @ [CR, LF] @ ''package main'' @ [CR, LF] =
      ''// File: old.go'' @ [CR, LF] @ (''package main'' @ [CR, LF])" by simp
  have h2: "LF \<notin> set ''// File: old.go''" by simp
  have h3: "scanFirstLine (''// File: old.go'' @ [CR, LF] @ ''package main'' @ [CR, LF]) =
     Some ''// File: old.go''"
    by (simp add: scanFirstLine_def MaxScanTokenSize_def dropCR_def)
  have h4: "formatComment cStyle ''.go'' ''File: '' ''new.go'' = Inr (''// File: new.go'' @ [LF])"
    by (simp add: formatComment_def cStyle_def)
  have h5: "Contains ''// File: old.go'' (LineComment cStyle) \<and>
        Contains ''// File: old.go'' ''File: '' \<or>
      Contains ''// File: old.go'' (BlockCommentStart cStyle) \<and>
        Contains ''// File: old.go'' ''File: ''"
    by (simp add: cStyle_def)
  have h6: "\<not> sublist (''// File: old.go'' @ [LF])
      (''// File: old.go'' @ [CR, LF] @ ''package main'' @ [CR, LF])"
    by (simp add: Contains_sublist[symmetric])
  from C9_crlf_header_unchanged[OF h1 h2 h3 h4 h5 h6] h3 show ?thesis by simp
qed

text \<open>
  C9 as first stated holds for every such content. When a later line repeats the first
  one and ends in a line feed alone, the searched bytes do occur, and the content
  changes: the later line is rewritten.
\<close>

theorem C9_later_copy_counterexample:
  "scanFirstLine (''// File: a'' @ [CR, LF] @ ''// File: a'' @ [LF]) = Some ''// File: a'' \<and>
   hasPathComment cStyle ''File: '' ''// File: a'' \<and>
   rewrite cStyle ''.go'' ''File: '' ''b.go'' (''// File: a'' @ [CR, LF] @ ''// File: a'' @ [LF]) =
     Inr (''// File: a'' @ [CR, LF] @ ''// File: b.go'' @ [LF], True) \<and>
   ''// File: a'' @ [CR, LF] @ ''// File: b.go'' @ [LF] \<noteq>
     ''// File: a'' @ [CR, LF] @ ''// File: a'' @ [LF]"
  by (simp add: rewrite_eval cStyle_def)

text \<open>
  C10 (as amended). For a style with an empty line token the header test is the test for
  the prefix alone: a first line is taken for a header iff the prefix occurs in it,
  comment delimiter or not. Where such a style has both block tokens, and the first line
  has the prefix in it, ends in a line feed with no carriage return before it and fits
  the scanner, the rewrite reports an update and returns the block header followed by
  everything after that line. The built-in styles of \<open>.html\<close>, \<open>.xml\<close> and \<open>.css\<close> are such
  styles, and the only built-in ones with an empty line token.
\<close>

theorem C10_empty_line_token:
  "(LineComment style = [] \<longrightarrow>
      (hasPathComment style pre firstLine \<longleftrightarrow> sublist pre firstLine)) \<and>
   (LineComment style = [] \<and> BlockCommentStart style \<noteq> [] \<and> BlockCommentEnd style \<noteq> [] \<and>
    LF \<notin> set line \<and> (line = [] \<or> last line \<noteq> CR) \<and> length line < MaxScanTokenSize \<and>
    sublist pre line \<longrightarrow>
      rewrite style ext pre rel (line @ LF # rest) =
        Inr (BlockCommentStart style @ '' '' @ pre @ rel @ '' '' @ BlockCommentEnd style @
             [LF] @ rest, True)) \<and>
   initializeFileTypes ''.html'' =
     Some \<lparr>LineComment = [], BlockCommentStart = ''<!--'', BlockCommentEnd = ''-->'',
           Preferred = ''block''\<rparr> \<and>
   initializeFileTypes ''.xml'' =
     Some \<lparr>LineComment = [], BlockCommentStart = ''<!--'', BlockCommentEnd = ''-->'',
           Preferred = ''block''\<rparr> \<and>
   initializeFileTypes ''.css'' =
     Some \<lparr>LineComment = [], BlockCommentStart = ''/*'', BlockCommentEnd = ''*/'',
           Preferred = ''block''\<rparr> \<and>
   (\<forall>e s. initializeFileTypes e = Some s \<longrightarrow>
      (LineComment s = [] \<longleftrightarrow> e \<in> {''.html'', ''.xml'', ''.css''}))"
proof -
  have det: "hasPathComment style pre l \<longleftrightarrow> sublist pre l" if "LineComment style = []" for l
    using that by (auto simp: hasPathComment_sublist)
  have rep: "rewrite style ext pre rel (line @ LF # rest) =
        Inr (BlockCommentStart style @ '' '' @ pre @ rel @ '' '' @ BlockCommentEnd style @
             [LF] @ rest, True)"
    if empty: "LineComment style = []"
      and block: "BlockCommentStart style \<noteq> []" "BlockCommentEnd style \<noteq> []"
      and nolf: "LF \<notin> set line" and nocr: "line = [] \<or> last line \<noteq> CR"
      and len: "length line < MaxScanTokenSize" and pre: "sublist pre line"
  proof -
    have fmt: "formatComment style ext pre rel =
        Inr (BlockCommentStart style @ '' '' @ pre @ rel @ '' '' @ BlockCommentEnd style @ [LF])"
      using empty block by (simp add: formatComment_def)
    have keep: "dropCR line = line" using nocr by (auto simp: dropCR_def)
    have "hasPathComment style pre line" using det[OF empty] pre by simp
    with rewrite_lf_first_line[OF fmt nolf len keep, of rest] show ?thesis by simp
  qed
  have html: "initializeFileTypes ''.html'' =
     Some \<lparr>LineComment = [], BlockCommentStart = ''<!--'', BlockCommentEnd = ''-->'',
           Preferred = ''block''\<rparr>"
    by (simp add: initializeFileTypes_def)
  have xml: "initializeFileTypes ''.xml'' =
     Some \<lparr>LineComment = [], BlockCommentStart = ''<!--'', BlockCommentEnd = ''-->'',
           Preferred = ''block''\<rparr>"
    by (simp add: initializeFileTypes_def)
  have css: "initializeFileTypes ''.css'' =
     Some \<lparr>LineComment = [], BlockCommentStart = ''/*'', BlockCommentEnd = ''*/'',
           Preferred = ''block''\<rparr>"
    by (simp add: initializeFileTypes_def)
  from det rep html xml css builtin_empty_line_token show ?thesis by blast
qed

text \<open>
  An HTML file whose first line is prose with the words \<open>File: \<close> in it and no comment
  delimiter: the line is replaced by the header.
\<close>

theorem C10_empty_line_token_witness:
  "\<not> sublist ''<!--'' ''Data File: report'' \<and>
   hasPathComment \<lparr>LineComment = [], BlockCommentStart = ''<!--'', BlockCommentEnd = ''-->'',
           Preferred = ''block''\<rparr> ''File: '' ''Data File: report'' \<and>
   rewrite \<lparr>LineComment = [], BlockCommentStart = ''<!--'', BlockCommentEnd = ''-->'',
           Preferred = ''block''\<rparr> ''.html'' ''File: '' ''index.html''
       (''Data File: report'' @ LF # ''<html>'') =
     Inr (''<!-- File: index.html -->'' @ [LF] @ ''<html>'', True)"
proof -
  let ?style = "\<lparr>LineComment = [], BlockCommentStart = ''<!--'', BlockCommentEnd = ''-->'',
           Preferred = ''block''\<rparr>"
  have n: "\<not> sublist ''<!--'' ''Data File: report''"
    by (simp add: Contains_sublist[symmetric])
  have h1: "LineComment ?style = []" by simp
  have h2: "BlockCommentStart ?style \<noteq> []" "BlockCommentEnd ?style \<noteq> []" by simp_all
  have h3: "LF \<notin> set ''Data File: report''" by simp
  have h4: "''Data File: report'' = [] \<or> last ''Data File: report'' \<noteq> CR" by simp
  have h5: "length ''Data File: report'' < MaxScanTokenSize"
    by (simp add: MaxScanTokenSize_def)
  have h6: "sublist ''File: '' ''Data File: report''"
    by (simp add: Contains_sublist[symmetric])
  from C10_empty_line_token[where style = ?style and pre = "''File: ''"
      and firstLine = "''Data File: report''" and line = "''Data File: report''"
      and ext = "''.html''" and rel = "''index.html''" and rest = "''<html>''"]
    h1 h2 h3 h4 h5 h6 n
  show ?thesis by simp
qed

text \<open>
  C10 as first stated has every such line replaced. With a carriage return before the
  line feed the line is taken for a header and stays: the content of this HTML file
  comes back as it was.
\<close>

theorem C10_crlf_line_kept_counterexample:
  "initializeFileTypes ''.html'' =
     Some \<lparr>LineComment = [], BlockCommentStart = ''<!--'', BlockCommentEnd = ''-->'',
           Preferred = ''block''\<rparr> \<and>
   scanFirstLine (''Data File: report'' @ [CR, LF] @ ''<html>'') = Some ''Data File: report'' \<and>
   hasPathComment \<lparr>LineComment = [], BlockCommentStart = ''<!--'', BlockCommentEnd = ''-->'',
           Preferred = ''block''\<rparr> ''File: '' ''Data File: report'' \<and>
   rewrite \<lparr>LineComment = [], BlockCommentStart = ''<!--'', BlockCommentEnd = ''-->'',
           Preferred = ''block''\<rparr> ''.html'' ''File: '' ''index.html''
       (''Data File: report'' @ [CR, LF] @ ''<html>'') =
     Inr (''Data File: report'' @ [CR, LF] @ ''<html>'', True)"
  by (simp add: rewrite_eval initializeFileTypes_def)

end
